theory Spec2Isabelle
  imports Main "HOL-Library.Word"
begin

unbundle bit_operations_syntax

section \<open>Outcomes and data\<close>

text \<open>
  A Go call either returns normally, returns one of the two package-level error values
  (\<open>ErrInvalidIP\<close>, \<open>ErrInvalidPattern\<close>), or panics. All three are values of the
  model: a result is \<open>error + 'a\<close>, and the panics that the functions of
  \<open>cmd/matcher.go\<close> can reach are constructors of \<open>error\<close>.
\<close>

type_synonym byte = "8 word"

datatype error =
    ErrInvalidIP
  | ErrInvalidPattern
  | PanicNegativeRepeat
  | PanicIndexOutOfRange
  | PanicNilDereference
  | PanicTypeAssertion

fun isPanic :: "error \<Rightarrow> bool" where
  "isPanic ErrInvalidIP = False"
| "isPanic ErrInvalidPattern = False"
| "isPanic PanicNegativeRepeat = True"
| "isPanic PanicIndexOutOfRange = True"
| "isPanic PanicNilDereference = True"
| "isPanic PanicTypeAssertion = True"

text \<open>
  \<open>IPv6Address\<close> holds a \<open>[16]byte\<close>, \<open>IPv4Address\<close> a \<open>[4]byte\<close>; the arrays are
  byte lists here, and the parsers are shown below to produce the right lengths.
\<close>

datatype IPAddress = IPv6Address "byte list" | IPv4Address "byte list"

fun Bytes :: "IPAddress \<Rightarrow> byte list" where
  "Bytes (IPv6Address b) = b"
| "Bytes (IPv4Address b) = b"

fun Version :: "IPAddress \<Rightarrow> int" where
  "Version (IPv6Address b) = 6"
| "Version (IPv4Address b) = 4"

section \<open>The Go library functions the parser calls\<close>

text \<open>
  Go strings are byte sequences, as \<open>string\<close> is here. The functions of package
  \<open>strings\<close> follow the library's documentation; \<open>Index\<close> returns \<open>-1\<close> when the
  separator is absent, \<open>Count\<close> counts non-overlapping occurrences, \<open>Repeat\<close>
  panics on a negative count.
\<close>

definition HasPrefix :: "string \<Rightarrow> string \<Rightarrow> bool" where
  "HasPrefix s p = (length p \<le> length s \<and> take (length p) s = p)"

definition HasSuffix :: "string \<Rightarrow> string \<Rightarrow> bool" where
  "HasSuffix s suf = (length suf \<le> length s \<and> drop (length s - length suf) s = suf)"

fun Index :: "string \<Rightarrow> string \<Rightarrow> int" where
  "Index [] sep = (if sep = [] then 0 else -1)"
| "Index (c # cs) sep =
     (if HasPrefix (c # cs) sep then 0
      else (let r = Index cs sep in if r < 0 then -1 else r + 1))"

definition Contains :: "string \<Rightarrow> string \<Rightarrow> bool" where
  "Contains s sep = (0 \<le> Index s sep)"

function Count :: "string \<Rightarrow> string \<Rightarrow> nat" where
  "Count s sep =
     (if sep = [] then length s + 1
      else if s = [] then 0
      else if HasPrefix s sep then 1 + Count (drop (length sep) s) sep
      else Count (tl s) sep)"
  by pat_completeness auto
termination
  by (relation "measure (\<lambda>(s, sep). length s)") auto

definition Repeat :: "string \<Rightarrow> int \<Rightarrow> error + string" where
  "Repeat s n = (if n < 0 then Inl PanicNegativeRepeat else Inr (concat (replicate (nat n) s)))"

function Split :: "string \<Rightarrow> string \<Rightarrow> string list" where
  "Split s sep =
     (if sep = [] then map (\<lambda>c. [c]) s
      else (let i = Index s sep in
            if i < 0 then [s]
            else take (nat i) s # Split (drop (nat i + length sep) s) sep))"
  by pat_completeness auto
termination
proof (relation "measure (\<lambda>(s, sep). length s)")
  show "wf (measure (\<lambda>(s, sep). length s))" by simp
next
  fix s sep :: string and i :: int
  assume "sep \<noteq> []" and "i = Index s sep" and "\<not> i < 0"
  then have "s \<noteq> []" by (cases s) auto
  with \<open>sep \<noteq> []\<close>
  show "((drop (nat i + length sep) s, sep), (s, sep)) \<in> measure (\<lambda>(s, sep). length s)"
    by (cases s) auto
qed

fun Join :: "string list \<Rightarrow> string \<Rightarrow> string" where
  "Join [] sep = []"
| "Join [x] sep = x"
| "Join (x # y # ys) sep = x @ sep @ Join (y # ys) sep"

text \<open>
  \<open>strconv.Atoi\<close>: an optional sign \<open>+\<close> or \<open>-\<close>, then one or more decimal digits
  and nothing else; a value outside the 64-bit \<open>int\<close> is a range error. The callers
  only test whether the error is nil, so the model returns \<open>None\<close> for both errors.
\<close>

definition isDigit :: "char \<Rightarrow> bool" where
  "isDigit c = (48 \<le> (of_char c :: nat) \<and> (of_char c :: nat) \<le> 57)"

fun digitsValue :: "nat \<Rightarrow> string \<Rightarrow> nat" where
  "digitsValue acc [] = acc"
| "digitsValue acc (c # cs) = digitsValue (acc * 10 + ((of_char c :: nat) - 48)) cs"

definition Atoi :: "string \<Rightarrow> int option" where
  "Atoi s =
     (let neg = (s \<noteq> [] \<and> hd s = CHR ''-'');
          ds = (if s \<noteq> [] \<and> (hd s = CHR ''-'' \<or> hd s = CHR ''+'') then tl s else s)
      in if ds = [] then None
         else if list_ex (\<lambda>c. \<not> isDigit c) ds then None
         else (let v = int (digitsValue 0 ds); n = (if neg then - v else v)
               in if n < - (2 ^ 63) \<or> 2 ^ 63 - 1 < n then None else Some n))"

text \<open>
  Indexing a slice or an array panics outside its bounds; \<open>copy\<close> copies as many
  elements as fit in the destination.
\<close>

definition index :: "'a list \<Rightarrow> int \<Rightarrow> error + 'a" where
  "index xs i = (if 0 \<le> i \<and> i < int (length xs) then Inr (xs ! nat i) else Inl PanicIndexOutOfRange)"

definition copyAt :: "'a list \<Rightarrow> nat \<Rightarrow> 'a list \<Rightarrow> 'a list" where
  "copyAt dst off src =
     (let n = min (length dst - off) (length src)
      in take off dst @ take n src @ drop (off + n) dst)"

section \<open>Address parser\<close>

subsection \<open>\<open>extendIPv6\<close>\<close>

text \<open>
  The three expansion blocks of \<open>extendIPv6\<close> run one after the other on the same
  variable; each is a function from the string to the string it leaves behind, or to
  the panic of \<open>strings.Repeat\<close>. The slices \<open>ipv6[:idx]\<close>, \<open>ipv6[idx+1:]\<close>,
  \<open>ipv6[2:]\<close> and \<open>ipv6[:len(ipv6)-2]\<close> are in range under the tests that guard them.
\<close>

definition expandMiddle :: "string \<Rightarrow> error + string" where
  "expandMiddle ipv6 =
     (if \<not> HasPrefix ipv6 ''::'' \<and> \<not> HasSuffix ipv6 ''::'' then
        (let idx = Index ipv6 ''::'';
             head = take (nat idx) ipv6;
             tail = drop (nat (idx + 1)) ipv6;
             colonCount = int (Count ipv6 '':'');
             addedBlockCount = 8 - colonCount
         in case Repeat '':0000'' addedBlockCount of
              Inl e \<Rightarrow> Inl e
            | Inr addedBlock \<Rightarrow> Inr (head @ addedBlock @ tail))
      else Inr ipv6)"

definition expandPrefix :: "string \<Rightarrow> error + string" where
  "expandPrefix ipv6 =
     (if HasPrefix ipv6 ''::'' then
        (let ipv6' = drop 2 ipv6;
             colonCount = int (Count ipv6' '':'');
             addedBlockCount = 8 - (colonCount + 1)
         in case Repeat ''0000:'' addedBlockCount of
              Inl e \<Rightarrow> Inl e
            | Inr addedBlock \<Rightarrow> Inr (addedBlock @ ipv6'))
      else Inr ipv6)"

definition expandSuffix :: "string \<Rightarrow> error + string" where
  "expandSuffix ipv6 =
     (if HasSuffix ipv6 ''::'' then
        (let ipv6' = take (length ipv6 - 2) ipv6;
             colonCount = int (Count ipv6' '':'');
             addedBlockCount = 8 - (colonCount + 1)
         in case Repeat '':0000'' addedBlockCount of
              Inl e \<Rightarrow> Inl e
            | Inr addedBlock \<Rightarrow> Inr (ipv6' @ addedBlock))
      else Inr ipv6)"

text \<open>The padding loop: a block of more than four characters is an error.\<close>

fun padBlocks :: "string list \<Rightarrow> error + string list" where
  "padBlocks [] = Inr []"
| "padBlocks (b # bs) =
     (if 4 < length b then Inl ErrInvalidIP
      else case Repeat ''0'' (4 - int (length b)) of
             Inl e \<Rightarrow> Inl e
           | Inr z \<Rightarrow> (case padBlocks bs of
                         Inl e \<Rightarrow> Inl e
                       | Inr r \<Rightarrow> Inr ((z @ b) # r)))"

definition padAndJoin :: "string \<Rightarrow> error + string" where
  "padAndJoin ipv6 =
     (case padBlocks (Split ipv6 '':'') of
        Inl e \<Rightarrow> Inl e
      | Inr blocks \<Rightarrow> Inr (Join blocks '':''))"

definition extendIPv6 :: "string \<Rightarrow> error + string" where
  "extendIPv6 ipv6 =
     (if 1 < Count ipv6 ''::'' then Inl ErrInvalidIP
      else if Contains ipv6 ''::'' then
        (if ipv6 = ''::'' then Inr ''0000:0000:0000:0000:0000:0000:0000:0000''
         else case expandMiddle ipv6 of
                Inl e \<Rightarrow> Inl e
              | Inr s1 \<Rightarrow> (case expandPrefix s1 of
                             Inl e \<Rightarrow> Inl e
                           | Inr s2 \<Rightarrow> (case expandSuffix s2 of
                                          Inl e \<Rightarrow> Inl e
                                        | Inr s3 \<Rightarrow> padAndJoin s3)))
      else padAndJoin ipv6)"

subsection \<open>\<open>hexToBytes\<close>\<close>

definition hexNibble :: "char \<Rightarrow> error + byte" where
  "hexNibble c =
     (let v = (of_char c :: nat) in
      if 48 \<le> v \<and> v \<le> 57 then Inr (word_of_nat v - 48)
      else if 97 \<le> v \<and> v \<le> 102 then Inr (word_of_nat v - 97 + 10)
      else if 65 \<le> v \<and> v \<le> 70 then Inr (word_of_nat v - 65 + 10)
      else Inl ErrInvalidIP)"

fun hexLoop :: "nat \<Rightarrow> string \<Rightarrow> byte list \<Rightarrow> error + byte list" where
  "hexLoop i [] b = Inr b"
| "hexLoop i (c # cs) b =
     (case hexNibble c of
        Inl e \<Rightarrow> Inl e
      | Inr n \<Rightarrow>
          hexLoop (i + 1) cs
            (if i mod 2 = 0 then b[i div 2 := push_bit 4 n]
             else b[i div 2 := (b ! (i div 2)) OR n]))"

definition hexToBytes :: "string \<Rightarrow> error + byte list" where
  "hexToBytes s = (if length s \<noteq> 4 then Inl ErrInvalidIP else hexLoop 0 s [0, 0])"

subsection \<open>\<open>parseIPv6\<close>, \<open>parseIPv4\<close> and \<open>ParseIp\<close>\<close>

fun parseIPv6_loop :: "nat \<Rightarrow> string list \<Rightarrow> byte list \<Rightarrow> error + byte list" where
  "parseIPv6_loop i [] ipBytes = Inr ipBytes"
| "parseIPv6_loop i (blk # rest) ipBytes =
     (if blk = [] then Inl ErrInvalidIP
      else if 4 < length blk then Inl ErrInvalidIP
      else case hexToBytes blk of
             Inl e \<Rightarrow> Inl e
           | Inr block \<Rightarrow> parseIPv6_loop (i + 1) rest (copyAt ipBytes (i * 2) block))"

definition parseIPv6 :: "string \<Rightarrow> error + IPAddress" where
  "parseIPv6 ip =
     (case extendIPv6 ip of
        Inl e \<Rightarrow> Inl e
      | Inr ip' \<Rightarrow>
          (let blocks = Split ip' '':'' in
           if length blocks \<noteq> 8 then Inl ErrInvalidIP
           else case parseIPv6_loop 0 blocks (replicate 16 0) of
                  Inl e \<Rightarrow> Inl e
                | Inr ipBytes \<Rightarrow> Inr (IPv6Address ipBytes)))"

fun parseIPv4_loop :: "nat \<Rightarrow> string list \<Rightarrow> byte list \<Rightarrow> error + byte list" where
  "parseIPv4_loop i [] ipBytes = Inr ipBytes"
| "parseIPv4_loop i (blk # rest) ipBytes =
     (if blk = [] then Inl ErrInvalidIP
      else if 3 < length blk then Inl ErrInvalidIP
      else case Atoi blk of
             None \<Rightarrow> Inl ErrInvalidIP
           | Some block \<Rightarrow>
               if block < 0 \<or> 255 < block then Inl ErrInvalidIP
               else parseIPv4_loop (i + 1) rest (ipBytes[i := word_of_int block]))"

definition parseIPv4 :: "string \<Rightarrow> error + IPAddress" where
  "parseIPv4 ip =
     (let blocks = Split ip ''.'' in
      if length blocks \<noteq> 4 then Inl ErrInvalidIP
      else case parseIPv4_loop 0 blocks (replicate 4 0) of
             Inl e \<Rightarrow> Inl e
           | Inr ipBytes \<Rightarrow> Inr (IPv4Address ipBytes))"

text \<open>The scan of \<open>ParseIp\<close>: the first \<open>.\<close> or \<open>:\<close> decides the parser.\<close>

fun ParseIp_scan :: "string \<Rightarrow> string \<Rightarrow> error + IPAddress" where
  "ParseIp_scan [] ip = Inl ErrInvalidIP"
| "ParseIp_scan (c # cs) ip =
     (if c = CHR ''.'' then parseIPv4 ip
      else if c = CHR '':'' then parseIPv6 ip
      else ParseIp_scan cs ip)"

definition ParseIp :: "string \<Rightarrow> error + IPAddress" where
  "ParseIp ip = ParseIp_scan ip ip"

section \<open>Pattern engine\<close>

text \<open>
  \<open>Pattern\<close> is an interface with the two implementations \<open>IPv6Pattern\<close> and
  \<open>IPv4Pattern\<close>; a value of the interface type may be nil, which is \<open>None\<close> here.
\<close>

datatype Pattern =
    IPv6Pattern (IP: "byte list") (MaskEnd: int) (MaskStart: int)
  | IPv4Pattern (IP4: "byte list") (Mask: "byte list")

function IPv6Match_loop :: "int \<Rightarrow> int \<Rightarrow> byte list \<Rightarrow> byte list \<Rightarrow> error + bool" where
  "IPv6Match_loop i maskEnd ipBytes pIP =
     (if i < maskEnd then
        (case index ipBytes i of
           Inl e \<Rightarrow> Inl e
         | Inr a \<Rightarrow> (case index pIP i of
                       Inl e \<Rightarrow> Inl e
                     | Inr b \<Rightarrow> if a \<noteq> b then Inr False
                                else IPv6Match_loop (i + 1) maskEnd ipBytes pIP))
      else Inr True)"
  by pat_completeness auto
termination
  by (relation "measure (\<lambda>(i, maskEnd, ipBytes, pIP). nat (maskEnd - i))") auto

function IPv4Match_loop :: "int \<Rightarrow> byte list \<Rightarrow> byte list \<Rightarrow> byte list \<Rightarrow> error + bool" where
  "IPv4Match_loop i ipBytes pIP pMask =
     (if i < 32 then
        (case index ipBytes i of
           Inl e \<Rightarrow> Inl e
         | Inr a \<Rightarrow> (case index pIP i of
                       Inl e \<Rightarrow> Inl e
                     | Inr b \<Rightarrow> (case index pMask i of
                                   Inl e \<Rightarrow> Inl e
                                 | Inr m \<Rightarrow> if a \<noteq> b AND m then Inr False
                                            else IPv4Match_loop (i + 1) ipBytes pIP pMask)))
      else Inr True)"
  by pat_completeness auto
termination
  by (relation "measure (\<lambda>(i, ipBytes, pIP, pMask). nat (32 - i))") auto

fun Match :: "Pattern \<Rightarrow> IPAddress \<Rightarrow> error + bool" where
  "Match (IPv6Pattern pIP maskEnd maskStart) ip =
     (if Version ip \<noteq> 6 then Inr False
      else IPv6Match_loop maskStart maskEnd (Bytes ip) pIP)"
| "Match (IPv4Pattern pIP pMask) ip =
     (if Version ip \<noteq> 4 then Inr False
      else IPv4Match_loop 0 (Bytes ip) pIP pMask)"

text \<open>A method call on a nil interface value panics.\<close>

fun MatchIface :: "Pattern option \<Rightarrow> IPAddress \<Rightarrow> error + bool" where
  "MatchIface None ip = Inl PanicNilDereference"
| "MatchIface (Some p) ip = Match p ip"

text \<open>\<open>parseIPv4Pattern\<close> returns the nil pattern and the nil error for every input.\<close>

definition parseIPv4Pattern :: "string \<Rightarrow> error + Pattern option" where
  "parseIPv4Pattern s = Inr None"

text \<open>
  The loop over the mask tokens of \<open>parseIPv6Pattern\<close>, on the pair
  \<open>(maskStart, maskEnd)\<close>.
\<close>

fun maskLoop :: "string list \<Rightarrow> int \<times> int \<Rightarrow> error + int \<times> int" where
  "maskLoop [] st = Inr st"
| "maskLoop (m # ms) (maskStart, maskEnd) =
     (if m = [] then maskLoop ms (maskStart, maskEnd)
      else case Atoi m of
             None \<Rightarrow> Inl ErrInvalidPattern
           | Some masklen \<Rightarrow>
               if masklen < - 128 \<or> 128 < masklen \<or> masklen = 0 then Inl ErrInvalidPattern
               else maskLoop ms
                      (if masklen < 0 then 128 + masklen else maskStart,
                       if 0 < masklen then masklen else maskEnd))"

text \<open>
  The 16-byte \<open>mask\<close> array that \<open>parseIPv6Pattern\<close> fills with \<open>0xff\<close> is never read
  and is left out. The type assertion \<open>ip.(IPv6Address)\<close> panics on an IPv4 address.
\<close>

definition parseIPv6Pattern :: "string \<Rightarrow> error + Pattern option" where
  "parseIPv6Pattern s =
     (let ipPart = (if Contains s ''/'' then take (nat (Index s ''/'')) s else s) in
      case ParseIp ipPart of
        Inl e \<Rightarrow> Inl e
      | Inr ip \<Rightarrow>
          (let maskPart = (if Contains s ''/'' then drop (nat (Index s ''/'')) s else []);
               masks = Split maskPart ''/''
           in case maskLoop masks (0, 128) of
                Inl e \<Rightarrow> Inl e
              | Inr (maskStart, maskEnd) \<Rightarrow>
                  (case ip of
                     IPv6Address b \<Rightarrow> Inr (Some (IPv6Pattern b maskEnd maskStart))
                   | IPv4Address b \<Rightarrow> Inl PanicTypeAssertion)))"

fun ParsePattern_scan :: "string \<Rightarrow> string \<Rightarrow> error + Pattern option" where
  "ParsePattern_scan [] s = Inl ErrInvalidIP"
| "ParsePattern_scan (c # cs) s =
     (if c = CHR ''.'' then parseIPv4Pattern s
      else if c = CHR '':'' then parseIPv6Pattern s
      else ParsePattern_scan cs s)"

definition ParsePattern :: "string \<Rightarrow> error + Pattern option" where
  "ParsePattern s = ParsePattern_scan s s"

section \<open>Notions of the specification\<close>

text \<open>
  The specification numbers the bits of an address from the most significant bit of
  the first byte. \<open>bitsAgree\<close> follows its words: every bit position \<open>i\<close> with
  \<open>maskStart \<le> i < maskEnd\<close> is identical in the two addresses.
\<close>

definition bitAt :: "byte list \<Rightarrow> nat \<Rightarrow> bool" where
  "bitAt bs i = bit (bs ! (i div 8)) (7 - i mod 8)"

definition bitsAgree :: "int \<Rightarrow> int \<Rightarrow> byte list \<Rightarrow> byte list \<Rightarrow> bool" where
  "bitsAgree maskStart maskEnd a b =
     list_all (\<lambda>i. bitAt a (nat i) = bitAt b (nat i)) [maskStart..maskEnd - 1]"

text \<open>
  The mask tokens of a pattern string, as \<open>parseIPv6Pattern\<close> computes them, the
  values of the tokens that are numbers, and the bounds the specification gives for a
  list of tokens: the last positive value is the prefix bound, \<open>128\<close> plus the last
  negative value the suffix bound.
\<close>

definition maskTokens :: "string \<Rightarrow> string list" where
  "maskTokens s = Split (if Contains s ''/'' then drop (nat (Index s ''/'')) s else []) ''/''"

definition maskValues :: "string list \<Rightarrow> int list" where
  "maskValues ts = List.map_filter Atoi ts"

definition validMask :: "string \<Rightarrow> bool" where
  "validMask t = (case Atoi t of None \<Rightarrow> False | Some m \<Rightarrow> m \<noteq> 0 \<and> - 128 \<le> m \<and> m \<le> 128)"

definition lastOr :: "'a \<Rightarrow> 'a list \<Rightarrow> 'a" where
  "lastOr d xs = (if xs = [] then d else last xs)"

definition expectedStart :: "string list \<Rightarrow> int" where
  "expectedStart ts = lastOr 0 (map (\<lambda>m. 128 + m) (filter (\<lambda>m. m < 0) (maskValues ts)))"

definition expectedEnd :: "string list \<Rightarrow> int" where
  "expectedEnd ts = lastOr 128 (filter (\<lambda>m. 0 < m) (maskValues ts))"

text \<open>A mask suffix written from its tokens: \<open>/t1/t2/...\<close>.\<close>

definition joinMasks :: "string list \<Rightarrow> string" where
  "joinMasks ts = concat (map (\<lambda>t. CHR ''/'' # t) ts)"

section \<open>Matching\<close>

text \<open>
  C1 (fails on the code). The claim: \<open>Match\<close> returns a boolean for every compiled
  pattern and every parsed address, with no panic. \<open>IPv6Pattern.Match\<close> uses the bit
  offsets \<open>MaskStart\<close> and \<open>MaskEnd\<close> as byte indices into the 16-byte arrays. The
  pattern \<open>2001:db8::abcd:1ff:fe00:0\<close> (no mask, so the bounds are 0 and 128) against
  the same address agrees on the indices 0 to 15 and then reads index 16: the call
  panics, where the repository's test "IPv6 No Masks Pattern" expects \<open>true\<close>. An
  IPv4 pattern string compiles to the nil pattern, and calling \<open>Match\<close> on it panics
  as well.
\<close>

theorem Match_panics_on_full_pattern:
  "ParsePattern ''2001:db8::abcd:1ff:fe00:0'' =
     Inr (Some (IPv6Pattern [32, 1, 13, 184, 0, 0, 0, 0, 171, 205, 1, 255, 254, 0, 0, 0] 128 0))
   \<and> ParseIp ''2001:db8::abcd:1ff:fe00:0'' =
     Inr (IPv6Address [32, 1, 13, 184, 0, 0, 0, 0, 171, 205, 1, 255, 254, 0, 0, 0])
   \<and> MatchIface
       (Some (IPv6Pattern [32, 1, 13, 184, 0, 0, 0, 0, 171, 205, 1, 255, 254, 0, 0, 0] 128 0))
       (IPv6Address [32, 1, 13, 184, 0, 0, 0, 0, 171, 205, 1, 255, 254, 0, 0, 0])
     = Inl PanicIndexOutOfRange
   \<and> ParsePattern ''192.168.100.1'' = Inr None
   \<and> ParseIp ''192.168.100.1'' = Inr (IPv4Address [192, 168, 100, 1])
   \<and> MatchIface None (IPv4Address [192, 168, 100, 1]) = Inl PanicNilDereference"
  by code_simp

text \<open>
  C2 (fails on the code). The claim: for a candidate of the pattern's version,
  \<open>Match\<close> is true exactly when the bits \<open>maskStart \<le> i < maskEnd\<close> agree. The
  loop compares the bytes at the indices \<open>maskStart \<le> i < maskEnd\<close> instead. For the
  pattern \<open>2001:db8::/64\<close> and the address \<open>2001:db8::abcd:1ff:fe00:0\<close> of the
  repository's test "IPv6 /64 Pattern" the first 64 bits agree and the test expects
  \<open>true\<close>; the loop reaches byte 8 (\<open>0xab\<close> against \<open>0x00\<close>) and returns \<open>false\<close>.
  The same happens for a bound inside a byte: \<open>fe80::/10\<close> against \<open>fe81::\<close>, which
  agree on the first 10 bits and differ in byte 1.
\<close>

theorem Match_compares_bytes_not_bits:
  "ParsePattern ''2001:db8::/64'' =
     Inr (Some (IPv6Pattern [32, 1, 13, 184, 0, 0, 0, 0, 0, 0, 0, 0, 0, 0, 0, 0] 64 0))
   \<and> ParseIp ''2001:db8::abcd:1ff:fe00:0'' =
     Inr (IPv6Address [32, 1, 13, 184, 0, 0, 0, 0, 171, 205, 1, 255, 254, 0, 0, 0])
   \<and> bitsAgree 0 64 [32, 1, 13, 184, 0, 0, 0, 0, 171, 205, 1, 255, 254, 0, 0, 0]
        [32, 1, 13, 184, 0, 0, 0, 0, 0, 0, 0, 0, 0, 0, 0, 0]
   \<and> Match (IPv6Pattern [32, 1, 13, 184, 0, 0, 0, 0, 0, 0, 0, 0, 0, 0, 0, 0] 64 0)
       (IPv6Address [32, 1, 13, 184, 0, 0, 0, 0, 171, 205, 1, 255, 254, 0, 0, 0])
     = Inr False
   \<and> ParsePattern ''fe80::/10'' =
     Inr (Some (IPv6Pattern [254, 128, 0, 0, 0, 0, 0, 0, 0, 0, 0, 0, 0, 0, 0, 0] 10 0))
   \<and> ParseIp ''fe81::'' =
     Inr (IPv6Address [254, 129, 0, 0, 0, 0, 0, 0, 0, 0, 0, 0, 0, 0, 0, 0])
   \<and> bitsAgree 0 10 [254, 129, 0, 0, 0, 0, 0, 0, 0, 0, 0, 0, 0, 0, 0, 0]
        [254, 128, 0, 0, 0, 0, 0, 0, 0, 0, 0, 0, 0, 0, 0, 0]
   \<and> Match (IPv6Pattern [254, 128, 0, 0, 0, 0, 0, 0, 0, 0, 0, 0, 0, 0, 0, 0] 10 0)
       (IPv6Address [254, 129, 0, 0, 0, 0, 0, 0, 0, 0, 0, 0, 0, 0, 0, 0])
     = Inr False"
  by code_simp

section \<open>Errors of the two parsers\<close>

text \<open>
  C3 (fails on the code). The claim: an IPv4 pattern with a bad mask token fails with
  InvalidPattern, in particular \<open>192.168.1.0/-33\<close>. \<open>parseIPv4Pattern\<close> is a stub
  that returns the nil pattern and the nil error, so the call reports no error; the
  repository's test "IPv4 Invalid Pattern" expects \<open>ErrInvalidPattern\<close>.
\<close>

theorem ParsePattern_ipv4_bad_mask_no_error:
  "ParsePattern ''192.168.1.0/-33'' = Inr None"
  by code_simp

text \<open>
  C4 (fails on the code). The claim: \<open>ParseIp\<close> returns an address or
  \<open>ErrInvalidIP\<close> for every string and never panics, for example on
  \<open>1:2:3:4:5:6:7:8:9::\<close>. For that string the suffix block of \<open>extendIPv6\<close> counts
  8 colons in \<open>1:2:3:4:5:6:7:8:9\<close> and calls \<open>strings.Repeat\<close> with the count
  \<open>8 - 9\<close>, which panics.
\<close>

theorem ParseIp_panics_on_nine_groups_and_compression:
  "ParseIp ''1:2:3:4:5:6:7:8:9::'' = Inl PanicNegativeRepeat
   \<and> isPanic PanicNegativeRepeat"
  by code_simp

text \<open>
  C6 (fails on the code). The claim: an IPv6 string with an empty group, such as
  \<open>1:2:3:4:5:6:7:\<close> with its trailing single colon, is rejected. \<open>extendIPv6\<close>
  pads every group to four digits, the empty one to \<open>0000\<close>, before \<open>parseIPv6\<close>
  tests for an empty group, so that test never fires: the string parses to
  \<open>1:2:3:4:5:6:7:0\<close>.
\<close>

theorem ParseIp_accepts_trailing_colon:
  "ParseIp ''1:2:3:4:5:6:7:'' =
     Inr (IPv6Address [0, 1, 0, 2, 0, 3, 0, 4, 0, 5, 0, 6, 0, 7, 0, 0])"
  by code_simp

text \<open>
  C8 (fails on the code). The claim: an IPv4 octet with a character that is not a
  digit is rejected, a sign included, for example \<open>+1.0.0.1\<close>. \<open>parseIPv4\<close> gives
  each octet to \<open>strconv.Atoi\<close>, which reads a leading sign; it rejects negative
  values but not the sign itself, so \<open>+1.0.0.1\<close> parses to \<open>1.0.0.1\<close> and
  \<open>-0.0.0.1\<close> to \<open>0.0.0.1\<close>.
\<close>

theorem ParseIp_accepts_signed_octet:
  "ParseIp ''+1.0.0.1'' = Inr (IPv4Address [1, 0, 0, 1])
   \<and> ParseIp ''-0.0.0.1'' = Inr (IPv4Address [0, 0, 0, 1])"
  by code_simp

text \<open>
  C9. \<open>ParseIp\<close> accepts \<open>:::\<close> and returns the all-zero IPv6 address. The count of
  non-overlapping \<open>::\<close> is 1, so the string passes the first test; it starts with
  \<open>::\<close>, so the middle block leaves it alone and the prefix block turns it into six
  zero groups followed by \<open>::\<close>; that string ends with \<open>::\<close>, so the suffix block
  runs too and the result has eight zero groups.
\<close>

theorem ParseIp_triple_colon:
  "Count '':::'' ''::'' = 1
   \<and> expandMiddle '':::'' = Inr '':::''
   \<and> expandPrefix '':::'' = Inr ''0000:0000:0000:0000:0000:0000::''
   \<and> expandSuffix ''0000:0000:0000:0000:0000:0000::''
       = Inr ''0000:0000:0000:0000:0000:0000:0000:0000''
   \<and> extendIPv6 '':::'' = Inr ''0000:0000:0000:0000:0000:0000:0000:0000''
   \<and> ParseIp '':::'' = Inr (IPv6Address [0, 0, 0, 0, 0, 0, 0, 0, 0, 0, 0, 0, 0, 0, 0, 0])"
  by code_simp

section \<open>Auxiliary facts\<close>

text \<open>
  The equations of \<open>Split\<close> and \<open>Count\<close> unfold without end; they are used one
  step at a time.
\<close>

declare Split.simps [simp del] Count.simps [simp del]

subsection \<open>The length of a parsed address\<close>

lemma copyAt_length: "length (copyAt dst off src) = length dst"
  by (auto simp: copyAt_def Let_def min_def)

lemma parseIPv6_loop_length:
  "parseIPv6_loop i blocks ipBytes = Inr r \<Longrightarrow> length r = length ipBytes"
  by (induction blocks arbitrary: i ipBytes)
     (auto simp: copyAt_length split: if_splits sum.splits)

lemma parseIPv4_loop_length:
  "parseIPv4_loop i blocks ipBytes = Inr r \<Longrightarrow> length r = length ipBytes"
  by (induction blocks arbitrary: i ipBytes)
     (auto split: if_splits option.splits)

lemma parseIPv6_length:
  "parseIPv6 s = Inr ip \<Longrightarrow> Version ip = 6 \<and> length (Bytes ip) = 16"
  by (auto simp: parseIPv6_def Let_def split: sum.splits if_splits
           dest: parseIPv6_loop_length)

lemma parseIPv4_length:
  "parseIPv4 s = Inr ip \<Longrightarrow> Version ip = 4 \<and> length (Bytes ip) = 4"
  by (auto simp: parseIPv4_def Let_def split: sum.splits if_splits
           dest: parseIPv4_loop_length)

lemma ParseIp_scan_length:
  "ParseIp_scan cs s = Inr ip \<Longrightarrow>
     (Version ip = 6 \<and> length (Bytes ip) = 16) \<or> (Version ip = 4 \<and> length (Bytes ip) = 4)"
  by (induction cs) (auto split: if_splits dest: parseIPv6_length parseIPv4_length)

lemma ParseIp_length:
  "ParseIp s = Inr ip \<Longrightarrow>
     (Version ip = 6 \<and> length (Bytes ip) = 16) \<or> (Version ip = 4 \<and> length (Bytes ip) = 4)"
  unfolding ParseIp_def by (rule ParseIp_scan_length)

subsection \<open>Splitting at a one-character separator\<close>

lemma HasPrefix_single [simp]: "HasPrefix (x # xs) [c] = (x = c)"
  by (simp add: HasPrefix_def)

lemma HasPrefix_Nil_single [simp]: "HasPrefix [] [c] = False"
  by (simp add: HasPrefix_def)

lemma Index_absent: "c \<notin> set s \<Longrightarrow> Index s [c] = - 1"
  by (induction s) auto

lemma Index_first: "c \<notin> set s \<Longrightarrow> Index (s @ c # r) [c] = int (length s)"
  by (induction s) (auto simp: Let_def)

lemma Split_absent: "c \<notin> set t \<Longrightarrow> Split t [c] = [t]"
  by (subst Split.simps) (simp add: Index_absent)

lemma Split_first: "c \<notin> set t \<Longrightarrow> Split (t @ c # r) [c] = t # Split r [c]"
  by (subst Split.simps) (simp add: Index_first)

lemma Split_joinMasks_app:
  "list_all (\<lambda>t. CHR ''/'' \<notin> set t) ts \<Longrightarrow> CHR ''/'' \<notin> set t
    \<Longrightarrow> Split (t @ joinMasks ts) ''/'' = t # ts"
proof (induction ts arbitrary: t)
  case Nil
  then show ?case by (simp add: joinMasks_def Split_absent)
next
  case (Cons u us)
  have "Split (t @ joinMasks (u # us)) ''/'' = Split (t @ CHR ''/'' # (u @ joinMasks us)) ''/''"
    by (simp add: joinMasks_def)
  also have "\<dots> = t # Split (u @ joinMasks us) ''/''"
    using Cons.prems(2) by (rule Split_first)
  also have "\<dots> = t # u # us"
    using Cons.IH [of u] Cons.prems(1) by simp
  finally show ?case .
qed

lemma maskTokens_plain:
  assumes "CHR ''/'' \<notin> set a"
  shows "maskTokens a = [[]]" and "\<not> Contains a ''/''"
proof -
  show c: "\<not> Contains a ''/''"
    using assms by (simp add: Contains_def Index_absent)
  then show "maskTokens a = [[]]"
    by (simp add: maskTokens_def Split_absent)
qed

lemma maskTokens_joined:
  assumes "CHR ''/'' \<notin> set a" and "list_all (\<lambda>t. CHR ''/'' \<notin> set t) ts" and "ts \<noteq> []"
  shows "maskTokens (a @ joinMasks ts) = [] # ts"
    and "Index (a @ joinMasks ts) ''/'' = int (length a)"
    and "Contains (a @ joinMasks ts) ''/''"
proof -
  obtain u us where ts: "ts = u # us" using assms(3) by (cases ts) auto
  have j: "joinMasks ts = CHR ''/'' # (u @ joinMasks us)"
    by (simp add: ts joinMasks_def)
  show idx: "Index (a @ joinMasks ts) ''/'' = int (length a)"
    unfolding j using assms(1) by (rule Index_first)
  show c: "Contains (a @ joinMasks ts) ''/''"
    by (simp add: Contains_def idx)
  have "maskTokens (a @ joinMasks ts) = Split (joinMasks ts) ''/''"
    using c by (simp add: maskTokens_def idx)
  also have "\<dots> = Split ([] @ joinMasks ts) ''/''" by simp
  also have "\<dots> = [] # ts"
    using assms(2) by (intro Split_joinMasks_app) auto
  finally show "maskTokens (a @ joinMasks ts) = [] # ts" .
qed

subsection \<open>The pattern parser on a literal followed by mask tokens\<close>

lemma parseIPv6Pattern_maskTokens:
  "parseIPv6Pattern s =
     (case ParseIp (if Contains s ''/'' then take (nat (Index s ''/'')) s else s) of
        Inl e \<Rightarrow> Inl e
      | Inr ip \<Rightarrow>
          (case maskLoop (maskTokens s) (0, 128) of
             Inl e \<Rightarrow> Inl e
           | Inr (maskStart, maskEnd) \<Rightarrow>
               (case ip of
                  IPv6Address b \<Rightarrow> Inr (Some (IPv6Pattern b maskEnd maskStart))
                | IPv4Address b \<Rightarrow> Inl PanicTypeAssertion)))"
  by (simp add: parseIPv6Pattern_def maskTokens_def Let_def split: sum.splits)

lemma maskLoop_skip_empty: "maskLoop ([] # ts) st = maskLoop ts st"
  by (cases st) simp

lemma parseIPv6Pattern_joined:
  assumes "ParseIp a = Inr (IPv6Address b)" and "CHR ''/'' \<notin> set a"
    and "list_all (\<lambda>t. CHR ''/'' \<notin> set t) ts"
  shows "parseIPv6Pattern (a @ joinMasks ts) =
           (case maskLoop ts (0, 128) of
              Inl e \<Rightarrow> Inl e
            | Inr (maskStart, maskEnd) \<Rightarrow> Inr (Some (IPv6Pattern b maskEnd maskStart)))"
proof (cases "ts = []")
  case True
  then show ?thesis
    using assms(1) maskTokens_plain [OF assms(2)]
    by (simp add: parseIPv6Pattern_maskTokens joinMasks_def split: sum.splits)
next
  case False
  then show ?thesis
    using assms(1) maskTokens_joined [OF assms(2,3) False]
    by (simp add: parseIPv6Pattern_maskTokens maskLoop_skip_empty split: sum.splits)
qed

lemma parseIPv4_not_v6: "parseIPv4 ip \<noteq> Inr (IPv6Address b)"
  by (auto simp: parseIPv4_def Let_def split: sum.splits)

lemma ParseIp_scan_v6_dispatch:
  "ParseIp_scan cs ip = Inr (IPv6Address b) \<Longrightarrow> ParsePattern_scan (cs @ r) s = parseIPv6Pattern s"
  by (induction cs) (auto simp: parseIPv4_not_v6 split: if_splits)

lemma ParsePattern_joined:
  assumes "ParseIp a = Inr (IPv6Address b)" and "CHR ''/'' \<notin> set a"
    and "list_all (\<lambda>t. CHR ''/'' \<notin> set t) ts"
  shows "ParsePattern (a @ joinMasks ts) =
           (case maskLoop ts (0, 128) of
              Inl e \<Rightarrow> Inl e
            | Inr (maskStart, maskEnd) \<Rightarrow> Inr (Some (IPv6Pattern b maskEnd maskStart)))"
proof -
  have "ParsePattern (a @ joinMasks ts) = parseIPv6Pattern (a @ joinMasks ts)"
    unfolding ParsePattern_def
    using assms(1) by (intro ParseIp_scan_v6_dispatch [of a a b]) (simp add: ParseIp_def)
  then show ?thesis
    using parseIPv6Pattern_joined [OF assms] by simp
qed


subsection \<open>Mask tokens that are numbers\<close>

lemma isDigit_slash: "\<not> isDigit CHR ''/''"
  by (simp add: isDigit_def)

lemma Atoi_no_slash:
  assumes "Atoi t = Some m"
  shows "CHR ''/'' \<notin> set t"
proof
  assume mem: "CHR ''/'' \<in> set t"
  define ds where "ds = (if t \<noteq> [] \<and> (hd t = CHR ''-'' \<or> hd t = CHR ''+'') then tl t else t)"
  from assms have dig: "\<not> list_ex (\<lambda>c. \<not> isDigit c) ds"
    unfolding Atoi_def Let_def ds_def by (auto split: if_splits)
  have "CHR ''/'' \<in> set ds"
    using mem unfolding ds_def by (cases t) auto
  with dig show False
    using isDigit_slash by (auto simp: list_ex_iff)
qed

subsection \<open>The loop over the mask tokens\<close>


lemma maskLoop_valid:
  "list_all (\<lambda>t. t = [] \<or> validMask t) ts \<Longrightarrow>
     maskLoop ts (ms0, me0) =
       Inr (lastOr ms0 (map (\<lambda>m. 128 + m) (filter (\<lambda>m. m < 0) (maskValues ts))),
            lastOr me0 (filter (\<lambda>m. 0 < m) (maskValues ts)))"
proof (induction ts arbitrary: ms0 me0)
  case Nil
  then show ?case by (simp add: maskValues_def lastOr_def map_filter_simps)
next
  case (Cons t ts)
  then have IH: "\<And>ms0 me0. maskLoop ts (ms0, me0) =
       Inr (lastOr ms0 (map (\<lambda>m. 128 + m) (filter (\<lambda>m. m < 0) (maskValues ts))),
            lastOr me0 (filter (\<lambda>m. 0 < m) (maskValues ts)))"
    by simp
  show ?case
  proof (cases "t = []")
    case True
    have "Atoi [] = None" by (simp add: Atoi_def)
    with True IH show ?thesis by (simp add: maskValues_def map_filter_simps)
  next
    case False
    with Cons.prems obtain m where m: "Atoi t = Some m" and r: "m \<noteq> 0" "- 128 \<le> m" "m \<le> 128"
      by (auto simp: validMask_def split: option.splits)
    have v: "maskValues (t # ts) = m # maskValues ts"
      using m by (simp add: maskValues_def map_filter_simps)
    show ?thesis
      using False m r IH by (auto simp: v lastOr_def)
  qed
qed

lemma maskLoop_invalid:
  "\<not> list_all (\<lambda>t. t = [] \<or> validMask t) ts \<Longrightarrow> maskLoop ts (ms0, me0) = Inl ErrInvalidPattern"
proof (induction ts arbitrary: ms0 me0)
  case Nil
  then show ?case by simp
next
  case (Cons t ts)
  show ?case
  proof (cases "t = [] \<or> validMask t")
    case True
    with Cons.prems have "\<not> list_all (\<lambda>t. t = [] \<or> validMask t) ts" by simp
    then have "\<And>ms0 me0. maskLoop ts (ms0, me0) = Inl ErrInvalidPattern" by (rule Cons.IH)
    then show ?thesis by (auto split: option.splits)
  next
    case False
    then show ?thesis by (auto simp: validMask_def split: option.splits)
  qed
qed

section \<open>Bounds of compiled patterns\<close>




text \<open>
  C7. The bounds of an IPv6 pattern. The three patterns of the specification compile
  to the bounds it names. For an IPv6 literal \<open>a\<close> with address \<open>b\<close>: without a mask
  suffix the bounds are 0 and 128; a positive token \<open>p\<close> sets \<open>MaskEnd = p\<close>, a
  negative token \<open>n\<close> sets \<open>MaskStart = 128 + n\<close>, and two tokens of different sign
  give the same pattern in either order.
\<close>

theorem ParsePattern_ipv6_bounds:
  assumes "ParseIp a = Inr (IPv6Address b)" and "CHR ''/'' \<notin> set a"
    and "Atoi tp = Some p" and "0 < p" and "p \<le> 128"
    and "Atoi tn = Some n" and "- 128 \<le> n" and "n < 0"
  shows "ParsePattern ''fe80::/10'' =
           Inr (Some (IPv6Pattern [254, 128, 0, 0, 0, 0, 0, 0, 0, 0, 0, 0, 0, 0, 0, 0] 10 0))
       \<and> ParsePattern ''::100/-9'' =
           Inr (Some (IPv6Pattern [0, 0, 0, 0, 0, 0, 0, 0, 0, 0, 0, 0, 0, 0, 1, 0] 128 119))
       \<and> ParsePattern ''::abcd:1ff:fe00:0/-64/104'' =
           Inr (Some (IPv6Pattern [0, 0, 0, 0, 0, 0, 0, 0, 171, 205, 1, 255, 254, 0, 0, 0] 104 64))
       \<and> ParsePattern a = Inr (Some (IPv6Pattern b 128 0))
       \<and> ParsePattern (a @ ''/'' @ tp) = Inr (Some (IPv6Pattern b p 0))
       \<and> ParsePattern (a @ ''/'' @ tn) = Inr (Some (IPv6Pattern b 128 (128 + n)))
       \<and> ParsePattern (a @ ''/'' @ tp @ ''/'' @ tn) = Inr (Some (IPv6Pattern b p (128 + n)))
       \<and> ParsePattern (a @ ''/'' @ tn @ ''/'' @ tp) = Inr (Some (IPv6Pattern b p (128 + n)))"
proof -
  have e1: "ParsePattern ''fe80::/10'' =
           Inr (Some (IPv6Pattern [254, 128, 0, 0, 0, 0, 0, 0, 0, 0, 0, 0, 0, 0, 0, 0] 10 0))"
    by code_simp
  have e2: "ParsePattern ''::100/-9'' =
           Inr (Some (IPv6Pattern [0, 0, 0, 0, 0, 0, 0, 0, 0, 0, 0, 0, 0, 0, 1, 0] 128 119))"
    by code_simp
  have e3: "ParsePattern ''::abcd:1ff:fe00:0/-64/104'' =
           Inr (Some (IPv6Pattern [0, 0, 0, 0, 0, 0, 0, 0, 171, 205, 1, 255, 254, 0, 0, 0] 104 64))"
    by code_simp
  have sp: "CHR ''/'' \<notin> set tp" and sn: "CHR ''/'' \<notin> set tn"
    using assms(3,6) by (auto dest: Atoi_no_slash)
  have tp: "tp \<noteq> []" and tn: "tn \<noteq> []"
    using assms(3,6) by (auto simp: Atoi_def)
  note J = ParsePattern_joined [OF assms(1,2)]
  have g0: "ParsePattern a = Inr (Some (IPv6Pattern b 128 0))"
    using J [of "[]"] by (simp add: joinMasks_def)
  have g1: "ParsePattern (a @ ''/'' @ tp) = Inr (Some (IPv6Pattern b p 0))"
    using J [of "[tp]"] sp tp assms(3,4,5) by (simp add: joinMasks_def)
  have g2: "ParsePattern (a @ ''/'' @ tn) = Inr (Some (IPv6Pattern b 128 (128 + n)))"
    using J [of "[tn]"] sn tn assms(6,7,8) by (simp add: joinMasks_def)
  have g3: "ParsePattern (a @ ''/'' @ tp @ ''/'' @ tn) = Inr (Some (IPv6Pattern b p (128 + n)))"
    using J [of "[tp, tn]"] sp sn tp tn assms(3-8) by (simp add: joinMasks_def)
  have g4: "ParsePattern (a @ ''/'' @ tn @ ''/'' @ tp) = Inr (Some (IPv6Pattern b p (128 + n)))"
    using J [of "[tn, tp]"] sp sn tp tn assms(3-8) by (simp add: joinMasks_def)
  from e1 e2 e3 g0 g1 g2 g3 g4 show ?thesis by blast
qed

theorem ParsePattern_ipv6_bounds_witness:
  "ParseIp ''2001:db8::'' = Inr (IPv6Address [32, 1, 13, 184, 0, 0, 0, 0, 0, 0, 0, 0, 0, 0, 0, 0])
   \<and> Atoi ''48'' = Some 48 \<and> Atoi ''-16'' = Some (- 16)
   \<and> ParsePattern ''2001:db8::'' =
       Inr (Some (IPv6Pattern [32, 1, 13, 184, 0, 0, 0, 0, 0, 0, 0, 0, 0, 0, 0, 0] 128 0))
   \<and> ParsePattern ''2001:db8::/48/-16'' =
       Inr (Some (IPv6Pattern [32, 1, 13, 184, 0, 0, 0, 0, 0, 0, 0, 0, 0, 0, 0, 0] 48 112))
   \<and> ParsePattern ''2001:db8::/-16/48'' =
       Inr (Some (IPv6Pattern [32, 1, 13, 184, 0, 0, 0, 0, 0, 0, 0, 0, 0, 0, 0, 0] 48 112))"
proof -
  have a: "ParseIp ''2001:db8::'' =
      Inr (IPv6Address [32, 1, 13, 184, 0, 0, 0, 0, 0, 0, 0, 0, 0, 0, 0, 0])"
    by code_simp
  have s: "CHR ''/'' \<notin> set ''2001:db8::''" by simp
  have p: "Atoi ''48'' = Some 48" by code_simp
  have n: "Atoi ''-16'' = Some (- 16)" by code_simp
  from ParsePattern_ipv6_bounds [OF a s p _ _ n] a p n show ?thesis by simp
qed

text \<open>
  C10. Any number of mask tokens is accepted. \<open>::1/1/2/3\<close> compiles, to the prefix
  bound 3. For an IPv6 literal followed by the tokens \<open>ts\<close>: if every token that is
  not empty is a number in \<open>[-128, 128]\<close> other than 0, the pattern compiles, with
  the last positive value as \<open>MaskEnd\<close> and 128 plus the last negative value as
  \<open>MaskStart\<close> (\<open>expectedEnd\<close>, \<open>expectedStart\<close>); if one token is not, the
  result is \<open>ErrInvalidPattern\<close>, wherever the token stands.
\<close>

theorem ParsePattern_many_masks:
  assumes "ParseIp a = Inr (IPv6Address b)" and "CHR ''/'' \<notin> set a"
    and "list_all (\<lambda>t. CHR ''/'' \<notin> set t) ts"
  shows "ParsePattern ''::1/1/2/3'' =
           Inr (Some (IPv6Pattern [0, 0, 0, 0, 0, 0, 0, 0, 0, 0, 0, 0, 0, 0, 0, 1] 3 0))
       \<and> ParsePattern (a @ joinMasks ts) =
           (if list_all (\<lambda>t. t = [] \<or> validMask t) ts
            then Inr (Some (IPv6Pattern b (expectedEnd ts) (expectedStart ts)))
            else Inl ErrInvalidPattern)"
proof -
  have e: "ParsePattern ''::1/1/2/3'' =
           Inr (Some (IPv6Pattern [0, 0, 0, 0, 0, 0, 0, 0, 0, 0, 0, 0, 0, 0, 0, 1] 3 0))"
    by code_simp
  have g: "ParsePattern (a @ joinMasks ts) =
           (if list_all (\<lambda>t. t = [] \<or> validMask t) ts
            then Inr (Some (IPv6Pattern b (expectedEnd ts) (expectedStart ts)))
            else Inl ErrInvalidPattern)"
  proof (cases "list_all (\<lambda>t. t = [] \<or> validMask t) ts")
    case True
    then show ?thesis
      using ParsePattern_joined [OF assms] maskLoop_valid [OF True, of 0 128]
      by (simp add: expectedEnd_def expectedStart_def)
  next
    case False
    then show ?thesis
      using ParsePattern_joined [OF assms] maskLoop_invalid [OF False, of 0 128]
      by simp
  qed
  from e g show ?thesis by blast
qed

theorem ParsePattern_many_masks_witness:
  "ParseIp ''::1'' = Inr (IPv6Address [0, 0, 0, 0, 0, 0, 0, 0, 0, 0, 0, 0, 0, 0, 0, 1])
   \<and> ParsePattern ''::1/1/2/3'' =
       Inr (Some (IPv6Pattern [0, 0, 0, 0, 0, 0, 0, 0, 0, 0, 0, 0, 0, 0, 0, 1] 3 0))
   \<and> ParsePattern ''::1/-8/64/-16/48/-24'' =
       Inr (Some (IPv6Pattern [0, 0, 0, 0, 0, 0, 0, 0, 0, 0, 0, 0, 0, 0, 0, 1] 48 104))
   \<and> ParsePattern ''::1/1/x/3'' = Inl ErrInvalidPattern"
proof -
  have a: "ParseIp ''::1'' = Inr (IPv6Address [0, 0, 0, 0, 0, 0, 0, 0, 0, 0, 0, 0, 0, 0, 0, 1])"
    by code_simp
  have s: "CHR ''/'' \<notin> set ''::1''" by simp
  have t1: "list_all (\<lambda>t. CHR ''/'' \<notin> set t) [''1'', ''2'', ''3'']" by simp
  have t2: "list_all (\<lambda>t. CHR ''/'' \<notin> set t) [''-8'', ''64'', ''-16'', ''48'', ''-24'']" by simp
  have t3: "list_all (\<lambda>t. CHR ''/'' \<notin> set t) [''1'', ''x'', ''3'']" by simp
  have v1: "list_all (\<lambda>t. t = [] \<or> validMask t) [''1'', ''2'', ''3'']" by code_simp
  have v2: "list_all (\<lambda>t. t = [] \<or> validMask t) [''-8'', ''64'', ''-16'', ''48'', ''-24'']"
    by code_simp
  have v3: "\<not> list_all (\<lambda>t. t = [] \<or> validMask t) [''1'', ''x'', ''3'']" by code_simp
  have x1: "expectedEnd [''1'', ''2'', ''3''] = 3 \<and> expectedStart [''1'', ''2'', ''3''] = 0"
    by code_simp
  have x2: "expectedEnd [''-8'', ''64'', ''-16'', ''48'', ''-24''] = 48
      \<and> expectedStart [''-8'', ''64'', ''-16'', ''48'', ''-24''] = 104"
    by code_simp
  from ParsePattern_many_masks [OF a s t1] ParsePattern_many_masks [OF a s t2]
    ParsePattern_many_masks [OF a s t3] a v1 v2 v3 x1 x2
  show ?thesis by (simp add: joinMasks_def)
qed

end
